theory Spec2Isabelle
  imports Main
begin

section \<open>Recall: chat with persistent memory (src/Recall/main.py)\<close>

text \<open>
  A shallow embedding of the three functions of \<^verbatim>\<open>main.py\<close>:
  \<^verbatim>\<open>chat_with_memory\<close>, \<^verbatim>\<open>generate_text\<close> and \<^verbatim>\<open>load_memory\<close>.
  Everything the functions reach outside themselves is explicit: the files of the working
  directory, the generation endpoint, the standard output, and the library functions they
  call (\<^verbatim>\<open>json.load\<close>, \<^verbatim>\<open>json.dump\<close>, \<^verbatim>\<open>str.capitalize\<close>, \<^verbatim>\<open>str()\<close>),
  which are parameters of the model.
\<close>

subsection \<open>Python values\<close>

text \<open>
  What \<^verbatim>\<open>json.load\<close> and \<^verbatim>\<open>r.json()\<close> return: \<^verbatim>\<open>None\<close>, a bool, an int, a
  float (a finite one, mantissa and binary exponent), a str, a list, or a dict with str keys
  (kept in insertion order; a lookup finds the first entry of a key). A message such as
  \<^verbatim>\<open>{"role": "user", "content": user_input}\<close> is a \<open>JObj\<close>.
\<close>

datatype json =
    JNull
  | JBool bool
  | JInt int
  | JFloat int int
  | JStr string
  | JList "json list"
  | JObj "(string \<times> json) list"

text \<open>The exceptions that leave a function of \<^verbatim>\<open>main.py\<close> uncaught.\<close>

datatype py_error =
    TypeError
  | KeyError string
  | AttributeError
  | UnboundLocalError

text \<open>The truth value of a Python object, as \<^verbatim>\<open>not x\<close> and \<^verbatim>\<open>if x:\<close> read it.\<close>

fun truthy :: "json \<Rightarrow> bool" where
  "truthy JNull = False"
| "truthy (JBool b) = b"
| "truthy (JInt n) = (n \<noteq> 0)"
| "truthy (JFloat m e) = (m \<noteq> 0)"
| "truthy (JStr s) = (s \<noteq> [])"
| "truthy (JList xs) = (xs \<noteq> [])"
| "truthy (JObj kvs) = (kvs \<noteq> [])"

text \<open>\<^verbatim>\<open>type(x).__name__\<close>, as the message of an AttributeError prints it.\<close>

fun type_name :: "json \<Rightarrow> string" where
  "type_name JNull = ''NoneType''"
| "type_name (JBool b) = ''bool''"
| "type_name (JInt n) = ''int''"
| "type_name (JFloat m e) = ''float''"
| "type_name (JStr s) = ''str''"
| "type_name (JList xs) = ''list''"
| "type_name (JObj kvs) = ''dict''"

text \<open>\<^verbatim>\<open>isinstance(v, dict)\<close>.\<close>

definition is_dict :: "json \<Rightarrow> bool" where
  "is_dict v = (case v of JObj kvs \<Rightarrow> True | _ \<Rightarrow> False)"

text \<open>
  Slices \<^verbatim>\<open>xs[i:]\<close> and \<^verbatim>\<open>xs[:i]\<close> of a list of length \<open>n\<close>: a negative index counts
  from the end, and an index out of range is clamped. \<^verbatim>\<open>xs[-0:]\<close> is \<^verbatim>\<open>xs[0:]\<close>, the
  whole list, and \<^verbatim>\<open>xs[:-0]\<close> is empty.
\<close>

definition slice_index :: "nat \<Rightarrow> int \<Rightarrow> nat" where
  "slice_index n i = (if i < 0 then nat (max 0 (int n + i)) else min n (nat i))"

definition slice_from :: "'a list \<Rightarrow> int \<Rightarrow> 'a list" where
  "slice_from xs i = drop (slice_index (length xs) i) xs"

definition slice_to :: "'a list \<Rightarrow> int \<Rightarrow> 'a list" where
  "slice_to xs i = take (slice_index (length xs) i) xs"

text \<open>\<^verbatim>\<open>sep.join(parts)\<close>.\<close>

fun join :: "string \<Rightarrow> string list \<Rightarrow> string" where
  "join sep [] = []"
| "join sep [x] = x"
| "join sep (x # y # ys) = x @ sep @ join sep (y # ys)"

text \<open>\<^verbatim>\<open>s.startswith(p)\<close>, and \<^verbatim>\<open>s.startswith((p1, p2, ...))\<close> for a tuple of prefixes.\<close>

definition startswith :: "string \<Rightarrow> string \<Rightarrow> bool" where
  "startswith s p = (take (length p) s = p)"

definition startswith_any :: "string \<Rightarrow> string list \<Rightarrow> bool" where
  "startswith_any s ps = list_ex (startswith s) ps"

subsection \<open>The library functions the source calls\<close>

text \<open>
  What \<^verbatim>\<open>json.load\<close> does with the text of a file: it returns a value, raises
  \<^verbatim>\<open>json.JSONDecodeError\<close>, or raises another exception (the message is \<^verbatim>\<open>str(e)\<close>).
\<close>

datatype decode_result =
    Decoded json
  | JSONDecodeError string
  | DecodeFault string

text \<open>
  The library is a parameter: \<open>capitalize\<close> is \<^verbatim>\<open>str.capitalize\<close>, \<open>str_of\<close> is what an
  f-string prints for a value that is not a str, \<open>json_dump\<close> is the text that
  \<^verbatim>\<open>json.dump(v, f, ensure_ascii=False, indent=2)\<close> writes, and \<open>json_load\<close> is
  \<^verbatim>\<open>json.load\<close> on a file's text.
\<close>

record runtime =
  capitalize :: "string \<Rightarrow> string"
  str_of :: "json \<Rightarrow> string"
  json_dump :: "json \<Rightarrow> string"
  json_load :: "string \<Rightarrow> decode_result"

text \<open>\<^verbatim>\<open>f"{v}"\<close>: a str is printed as it is.\<close>

definition format_value :: "runtime \<Rightarrow> json \<Rightarrow> string" where
  "format_value rt v = (case v of JStr s \<Rightarrow> s | _ \<Rightarrow> str_of rt v)"

subsection \<open>The world: files, endpoint, standard output\<close>

text \<open>
  A path of the working directory: no file (\<^verbatim>\<open>os.path.exists\<close> is false), a file that
  cannot be opened or read as UTF-8 text (the exception's message), or a file with its text.
\<close>

datatype file_state =
    Missing
  | Unreadable string
  | Text string

text \<open>
  What the block \<^verbatim>\<open>with open(MEMORY_FILE, "w", encoding="utf-8") as f: json.dump(...)\<close>
  meets: no fault; \<^verbatim>\<open>open\<close> raises (the message); or \<^verbatim>\<open>open\<close> succeeds, which truncates
  the file, and \<^verbatim>\<open>json.dump\<close> or the closing flush raises after some text (possibly none)
  has reached the file.
\<close>

datatype write_outcome =
    WriteOk
  | OpenFails string
  | DumpFails string string

text \<open>
  An exception raised inside the \<^verbatim>\<open>try\<close> of \<^verbatim>\<open>generate_text\<close>, by the class its handlers
  tell apart (\<^verbatim>\<open>requests.HTTPError\<close>; another \<^verbatim>\<open>requests.RequestException\<close>; another
  \<^verbatim>\<open>Exception\<close>) and its message \<^verbatim>\<open>str(e)\<close>.
\<close>

datatype exc_class = HTTPError | RequestException | OtherException

datatype exc = Exc exc_class string

text \<open>
  A response \<^verbatim>\<open>r\<close>: its \<^verbatim>\<open>r.status_code\<close>, its \<^verbatim>\<open>r.text\<close>, the message \<^verbatim>\<open>str(e)\<close> of
  the HTTPError that \<^verbatim>\<open>r.raise_for_status()\<close> raises when the status is an error, and
  what \<^verbatim>\<open>r.json()\<close> raises or returns. \<^verbatim>\<open>requests.post\<close> raises or returns a response.
\<close>

datatype response =
  Response (r_status_code: int) (r_text: string) (r_status_error: string) (r_json: "exc + json")

text \<open>
  \<^verbatim>\<open>r.raise_for_status()\<close>, the library's rule: it raises HTTPError for a client error
  status (400 to 499) and for a server error status (500 to 599), and nothing for any other
  status.
\<close>

definition raise_for_status :: "response \<Rightarrow> exc option" where
  "raise_for_status r =
     (if 400 \<le> r_status_code r \<and> r_status_code r < 600
      then Some (Exc HTTPError (r_status_error r)) else None)"

datatype post_result = PostRaises exc | PostReturns response

text \<open>
  The endpoint answers a request \<^verbatim>\<open>{"model": model, "prompt": prompt, "stream": False}\<close>;
  the arguments are the model and the prompt.
\<close>

record world =
  files :: "string \<Rightarrow> file_state"
  endpoint :: "string \<Rightarrow> string \<Rightarrow> post_result"
  write_fault :: write_outcome
  stdout :: "string list"

definition print :: "string \<Rightarrow> world \<Rightarrow> world" where
  "print line w = w\<lparr>stdout := stdout w @ [line]\<rparr>"

subsection \<open>\<^verbatim>\<open>generate_text\<close> (lines 62-85)\<close>

text \<open>
  The three handlers. The first reads \<^verbatim>\<open>r.text\<close>: when \<^verbatim>\<open>requests.post\<close> itself raised,
  \<^verbatim>\<open>r\<close> is not bound (\<open>None\<close> here) and the handler raises UnboundLocalError.
\<close>

fun handle_exc :: "exc \<Rightarrow> string option \<Rightarrow> py_error + json" where
  "handle_exc (Exc HTTPError e) (Some t) = Inr (JStr (''HTTP Error: '' @ e @ '', '' @ t))"
| "handle_exc (Exc HTTPError e) None = Inl UnboundLocalError"
| "handle_exc (Exc RequestException e) t = Inr (JStr (''Request Error: '' @ e))"
| "handle_exc (Exc OtherException e) t = Inr (JStr (''Unexpected Error: '' @ e))"

text \<open>\<^verbatim>\<open>data.get("response", "")\<close>: a dict answers; any other value has no \<^verbatim>\<open>get\<close>.\<close>

definition get_response :: "json \<Rightarrow> exc + json" where
  "get_response data =
     (case data of
        JObj kvs \<Rightarrow> (case map_of kvs ''response'' of None \<Rightarrow> Inr (JStr []) | Some v \<Rightarrow> Inr v)
      | _ \<Rightarrow> Inl (Exc OtherException
                 ([CHR 0x27] @ type_name data @ [CHR 0x27] @ '' object has no attribute ''
                    @ [CHR 0x27] @ ''get'' @ [CHR 0x27])))"

definition generate_text :: "(string \<Rightarrow> string \<Rightarrow> post_result) \<Rightarrow> string \<Rightarrow> string \<Rightarrow> py_error + json" where
  "generate_text ep prompt model =
     (case ep model prompt of
        PostRaises e \<Rightarrow> handle_exc e None
      | PostReturns r \<Rightarrow>
          (case raise_for_status r of
             Some e \<Rightarrow> handle_exc e (Some (r_text r))
           | None \<Rightarrow>
               (case r_json r of
                  Inl e \<Rightarrow> handle_exc e (Some (r_text r))
                | Inr data \<Rightarrow>
                    (case get_response data of
                       Inl e \<Rightarrow> handle_exc e (Some (r_text r))
                     | Inr v \<Rightarrow> Inr v))))"

subsection \<open>\<^verbatim>\<open>load_memory\<close> (lines 87-111)\<close>

definition MEMORY_FILE :: "string \<Rightarrow> string" where
  "MEMORY_FILE session = ''memory_'' @ session @ ''.json''"

definition load_memory :: "runtime \<Rightarrow> string \<Rightarrow> world \<Rightarrow> json list \<times> world" where
  "load_memory rt session w =
     (case files w (MEMORY_FILE session) of
        Missing \<Rightarrow> ([], w)
      | Unreadable e \<Rightarrow> ([], print (''Error loading memory: '' @ e) w)
      | Text s \<Rightarrow>
          (case json_load rt s of
             Decoded memory \<Rightarrow>
               (case memory of
                  JList xs \<Rightarrow> (xs, w)
                | _ \<Rightarrow> ([], print (''Invalid memory format in '' @ MEMORY_FILE session) w))
           | JSONDecodeError e \<Rightarrow> ([], print (''JSON decode error loading memory: '' @ e) w)
           | DecodeFault e \<Rightarrow> ([], print (''Error loading memory: '' @ e) w)))"

subsection \<open>\<^verbatim>\<open>chat_with_memory\<close> (lines 7-60)\<close>

definition message :: "string \<Rightarrow> json \<Rightarrow> json" where
  "message role content = JObj [(''role'', JStr role), (''content'', content)]"

text \<open>
  \<^verbatim>\<open>f"{m['role'].capitalize()}: {m['content']}"\<close>: subscripting a value that is not a
  dict with a str raises TypeError, a missing key raises KeyError, and a role that is not a
  str has no \<^verbatim>\<open>capitalize\<close>. The role is evaluated before the content.
\<close>

definition render :: "runtime \<Rightarrow> json \<Rightarrow> py_error + string" where
  "render rt m =
     (case m of
        JObj kvs \<Rightarrow>
          (case map_of kvs ''role'' of
             None \<Rightarrow> Inl (KeyError ''role'')
           | Some r \<Rightarrow>
               (case r of
                  JStr role \<Rightarrow>
                    (case map_of kvs ''content'' of
                       None \<Rightarrow> Inl (KeyError ''content'')
                     | Some c \<Rightarrow> Inr (capitalize rt role @ '': '' @ format_value rt c))
                | _ \<Rightarrow> Inl AttributeError))
      | _ \<Rightarrow> Inl TypeError)"

text \<open>
  The values \<^verbatim>\<open>render\<close> accepts: a dict with a str under \<^verbatim>\<open>role\<close> and some value
  under \<^verbatim>\<open>content\<close>.
\<close>

definition is_message :: "json \<Rightarrow> bool" where
  "is_message m =
     (case m of
        JObj kvs \<Rightarrow>
          (case map_of kvs ''role'' of
             Some (JStr r) \<Rightarrow> map_of kvs ''content'' \<noteq> None
           | _ \<Rightarrow> False)
      | _ \<Rightarrow> False)"

text \<open>The list comprehension: the first message that raises ends it.\<close>

fun render_all :: "runtime \<Rightarrow> json list \<Rightarrow> py_error + string list" where
  "render_all rt [] = Inr []"
| "render_all rt (m # ms) =
     (case render rt m of
        Inl e \<Rightarrow> Inl e
      | Inr l \<Rightarrow> (case render_all rt ms of Inl e \<Rightarrow> Inl e | Inr ls \<Rightarrow> Inr (l # ls)))"

definition summary_prompt :: "string \<Rightarrow> string" where
  "summary_prompt old_text =
     ''Summarize the following conversation in a few sentences to preserve context:\<newline>''
       @ old_text @ ''\<newline>Summary:''"

text \<open>Lines 31-36: the memory after the summarization step.\<close>

definition summarize :: "runtime \<Rightarrow> (string \<Rightarrow> string \<Rightarrow> post_result) \<Rightarrow> string \<Rightarrow> int \<Rightarrow> int \<Rightarrow>
    json list \<Rightarrow> py_error + json list" where
  "summarize rt ep model max_history summary_threshold memory =
     (if int (length memory) > summary_threshold then
        (case render_all rt (slice_to memory (- max_history)) of
           Inl e \<Rightarrow> Inl e
         | Inr ls \<Rightarrow>
             (case generate_text ep (summary_prompt (join ''\<newline>'' ls)) model of
                Inl e \<Rightarrow> Inl e
              | Inr summary \<Rightarrow>
                  Inr ([message ''system'' summary] @ slice_from memory (- max_history))))
      else Inr memory)"

text \<open>Lines 39-41: the messages of the context.\<close>

definition context_messages :: "int \<Rightarrow> string \<Rightarrow> json list \<Rightarrow> json list" where
  "context_messages max_history agent_prompt memory =
     (if agent_prompt \<noteq> [] then
        [message ''system'' (JStr agent_prompt)] @ slice_from memory (- max_history)
      else slice_from memory (- max_history))"

text \<open>Lines 43-44: the prompt.\<close>

definition context_prompt :: "runtime \<Rightarrow> json list \<Rightarrow> py_error + string" where
  "context_prompt rt ms =
     (case render_all rt ms of
        Inl e \<Rightarrow> Inl e
      | Inr ls \<Rightarrow> Inr (join ''\<newline>'' ls @ ''\<newline>Assistant:''))"

text \<open>
  Line 49: \<^verbatim>\<open>not assistant_reply or assistant_reply.startswith((...))\<close>. A reply that is
  true and not a str has no \<^verbatim>\<open>startswith\<close>.
\<close>

definition error_prefixes :: "string list" where
  "error_prefixes = [''HTTP Error:'', ''Request Error:'', ''Unexpected Error:'']"

definition is_failure :: "json \<Rightarrow> py_error + bool" where
  "is_failure assistant_reply =
     (if \<not> truthy assistant_reply then Inr True
      else (case assistant_reply of
              JStr s \<Rightarrow> Inr (startswith_any s error_prefixes)
            | _ \<Rightarrow> Inl AttributeError))"

text \<open>
  Lines 54-58: the write of the memory. A fault of \<^verbatim>\<open>open\<close> leaves the file as it was;
  after \<^verbatim>\<open>open\<close> the file holds what was written. Either fault is printed.
\<close>

definition save_memory :: "runtime \<Rightarrow> string \<Rightarrow> json list \<Rightarrow> world \<Rightarrow> world" where
  "save_memory rt session memory w =
     (case write_fault w of
        WriteOk \<Rightarrow>
          w\<lparr>files := (files w)(MEMORY_FILE session := Text (json_dump rt (JList memory)))\<rparr>
      | OpenFails e \<Rightarrow> print (''Error saving memory: '' @ e) w
      | DumpFails written e \<Rightarrow>
          print (''Error saving memory: '' @ e)
            (w\<lparr>files := (files w)(MEMORY_FILE session := Text written)\<rparr>))"

text \<open>
  Lines 25-47: the memory and the reply when line 47 has run, or the exception raised on
  the way.
\<close>

definition assistant_response :: "runtime \<Rightarrow> string \<Rightarrow> string \<Rightarrow> string \<Rightarrow> int \<Rightarrow> int \<Rightarrow> string \<Rightarrow>
    world \<Rightarrow> (py_error + json list \<times> json) \<times> world" where
  "assistant_response rt user_input session model max_history summary_threshold agent_prompt w =
     (case load_memory rt session w of
        (loaded, w1) \<Rightarrow>
          (case summarize rt (endpoint w1) model max_history summary_threshold
                  (loaded @ [message ''user'' (JStr user_input)]) of
             Inl e \<Rightarrow> (Inl e, w1)
           | Inr memory \<Rightarrow>
               (case context_prompt rt (context_messages max_history agent_prompt memory) of
                  Inl e \<Rightarrow> (Inl e, w1)
                | Inr context \<Rightarrow>
                    (case generate_text (endpoint w1) context model of
                       Inl e \<Rightarrow> (Inl e, w1)
                     | Inr assistant_reply \<Rightarrow> (Inr (memory, assistant_reply), w1)))))"

definition chat_with_memory :: "runtime \<Rightarrow> string \<Rightarrow> string \<Rightarrow> string \<Rightarrow> int \<Rightarrow> int \<Rightarrow> string \<Rightarrow>
    world \<Rightarrow> (py_error + json) \<times> world" where
  "chat_with_memory rt user_input session model max_history summary_threshold agent_prompt w =
     (case assistant_response rt user_input session model max_history summary_threshold
             agent_prompt w of
        (Inl e, w1) \<Rightarrow> (Inl e, w1)
      | (Inr (memory, assistant_reply), w1) \<Rightarrow>
          (case is_failure assistant_reply of
             Inl e \<Rightarrow> (Inl e, w1)
           | Inr True \<Rightarrow> (Inr assistant_reply, w1)
           | Inr False \<Rightarrow>
               (Inr assistant_reply,
                save_memory rt session (memory @ [message ''assistant'' assistant_reply]) w1)))"

subsection \<open>An example environment\<close>

text \<open>
  A runtime and a world to evaluate the functions on: \<^verbatim>\<open>str.capitalize\<close> on ASCII text, a
  JSON codec given by the table of the documents it knows (any other text is rejected), an
  endpoint that is any function of the request, and a working directory given by the texts
  of its files.
\<close>

fun ascii_upper :: "char \<Rightarrow> char" where
  "ascii_upper (Char b0 b1 b2 b3 b4 b5 b6 b7) =
     (if 97 \<le> (of_char (Char b0 b1 b2 b3 b4 b5 b6 b7) :: nat)
        \<and> (of_char (Char b0 b1 b2 b3 b4 b5 b6 b7) :: nat) \<le> 122
      then Char b0 b1 b2 b3 b4 False b6 b7 else Char b0 b1 b2 b3 b4 b5 b6 b7)"

fun ascii_lower :: "char \<Rightarrow> char" where
  "ascii_lower (Char b0 b1 b2 b3 b4 b5 b6 b7) =
     (if 65 \<le> (of_char (Char b0 b1 b2 b3 b4 b5 b6 b7) :: nat)
        \<and> (of_char (Char b0 b1 b2 b3 b4 b5 b6 b7) :: nat) \<le> 90
      then Char b0 b1 b2 b3 b4 True b6 b7 else Char b0 b1 b2 b3 b4 b5 b6 b7)"

definition ascii_capitalize :: "string \<Rightarrow> string" where
  "ascii_capitalize s = (case s of [] \<Rightarrow> [] | c # cs \<Rightarrow> ascii_upper c # map ascii_lower cs)"

definition example_str :: "json \<Rightarrow> string" where
  "example_str v =
     (case v of
        JNull \<Rightarrow> ''None''
      | JBool b \<Rightarrow> (if b then ''True'' else ''False'')
      | _ \<Rightarrow> ''<'' @ type_name v @ ''>'')"

text \<open>A record of two messages, as \<^verbatim>\<open>json.dump\<close> with \<^verbatim>\<open>indent=2\<close> writes it.\<close>

definition example_record :: string where
  \<open>example_record =
     ''[\<newline>  {\<newline>    "role": "user",\<newline>    "content": "hello"\<newline>  },\<newline>  {\<newline>    "role": "assistant",\<newline>    "content": "hi there"\<newline>  }\<newline>]''\<close>

definition example_documents :: "(string \<times> json) list" where
  \<open>example_documents =
     [(''[]'', JList []),
      (''[\<newline>  1\<newline>]'', JList [JInt 1]),
      (''{}'', JObj []),
      (example_record,
       JList [message ''user'' (JStr ''hello''), message ''assistant'' (JStr ''hi there'')])]\<close>

definition example_dump :: "json \<Rightarrow> string" where
  "example_dump v =
     (case find (\<lambda>(t, d). d = v) example_documents of Some (t, d) \<Rightarrow> t | None \<Rightarrow> ''null'')"

definition example_load :: "string \<Rightarrow> decode_result" where
  "example_load s =
     (case map_of example_documents s of
        Some d \<Rightarrow> Decoded d
      | None \<Rightarrow> JSONDecodeError ''Expecting value'')"

definition example_runtime :: runtime where
  "example_runtime =
     \<lparr>capitalize = ascii_capitalize, str_of = example_str,
      json_dump = example_dump, json_load = example_load\<rparr>"

text \<open>A reply \<^verbatim>\<open>{"response": s}\<close> with status 200.\<close>

definition replies :: "string \<Rightarrow> post_result" where
  \<open>replies s =
     PostReturns (Response 200 (''{"response": "'' @ s @ ''"}'') []
       (Inr (JObj [(''response'', JStr s)])))\<close>

text \<open>An endpoint that gives every request the same result.\<close>

definition stub :: "post_result \<Rightarrow> string \<Rightarrow> string \<Rightarrow> post_result" where
  "stub res model prompt = res"

definition example_world ::
    "(string \<times> string) list \<Rightarrow> (string \<Rightarrow> string \<Rightarrow> post_result) \<Rightarrow> write_outcome \<Rightarrow> world" where
  "example_world disk ep fault =
     \<lparr>files = (\<lambda>p. case map_of disk p of None \<Rightarrow> Missing | Some t \<Rightarrow> Text t),
      endpoint = ep, write_fault = fault, stdout = []\<rparr>"

text \<open>
  A response with an error status, and an endpoint that refuses the summary request and
  answers every other one.
\<close>

definition server_error :: post_result where
  "server_error =
     PostReturns (Response 500 ''oops'' ''500 Server Error''
       (Inl (Exc RequestException ''Expecting value'')))"

definition summary_refused :: "string \<Rightarrow> string \<Rightarrow> post_result" where
  "summary_refused model prompt =
     (if startswith prompt ''Summarize'' then PostRaises (Exc RequestException ''Connection refused'')
      else replies ''fine'')"

text \<open>An example transcript of three messages.\<close>

definition example_transcript :: "json list" where
  "example_transcript =
     [message ''user'' (JStr ''hello''), message ''assistant'' (JStr ''hi there''),
      message ''user'' (JStr ''how are you'')]"

section \<open>Properties\<close>

subsection \<open>The generation client\<close>

lemma handle_exc_bound: "\<exists>v. handle_exc x (Some t) = Inr v"
proof -
  obtain c m where "x = Exc c m" by (cases x)
  then show ?thesis by (cases c) simp_all
qed

lemma generate_text_returns:
  "\<forall>e. ep model prompt \<noteq> PostRaises (Exc HTTPError e) \<Longrightarrow> \<exists>v. generate_text ep prompt model = Inr v"
proof (cases "ep model prompt")
  case (PostRaises x)
  assume a: "\<forall>e. ep model prompt \<noteq> PostRaises (Exc HTTPError e)"
  obtain c m where x: "x = Exc c m" by (cases x)
  with a PostRaises have "c \<noteq> HTTPError" by auto
  with PostRaises x show ?thesis
    by (cases c) (simp_all add: generate_text_def raise_for_status_def)
next
  case (PostReturns r)
  then show ?thesis
    using handle_exc_bound
    by (auto simp add: generate_text_def raise_for_status_def split: option.splits sum.splits)
qed

text \<open>
  C6, as the code has it. \<^verbatim>\<open>generate_text\<close> returns the \<^verbatim>\<open>response\<close> field (the empty
  string when the field is absent) of a reply whose status is not an error status, 400 to
  599, and whose body decodes to a dict; a status such as 300 is treated as a success. Every
  exception raised inside the \<^verbatim>\<open>try\<close> becomes a returned string, by its class: for an error
  status, 400 to 599, \<^verbatim>\<open>HTTP Error:\<close> with the error's message and the response text; for any
  other RequestException, \<^verbatim>\<open>Request Error:\<close> (a transport-level failure raised by
  \<^verbatim>\<open>requests.post\<close>, and also a body that \<^verbatim>\<open>r.json()\<close> rejects with the library's own
  RequestException); for any other exception, \<^verbatim>\<open>Unexpected Error:\<close>, which includes a body
  that decodes to a value that is not a dict. Nothing is raised to the caller, unless
  \<^verbatim>\<open>requests.post\<close> itself raises an HTTPError, which leaves \<^verbatim>\<open>r\<close> unbound in the handler;
  the library raises HTTPError from \<^verbatim>\<open>raise_for_status\<close> only.
\<close>

theorem generate_text_classifies:
  "(ep model prompt = PostReturns (Response c t m (Inr (JObj kvs)))
        \<and> (c < 400 \<or> 600 \<le> c) \<longrightarrow>
      generate_text ep prompt model =
        Inr (case map_of kvs ''response'' of None \<Rightarrow> JStr [] | Some v \<Rightarrow> v))
   \<and> (ep model prompt = PostReturns (Response c t m j) \<and> 400 \<le> c \<and> c < 600 \<longrightarrow>
      generate_text ep prompt model = Inr (JStr (''HTTP Error: '' @ m @ '', '' @ t))
      \<and> startswith (''HTTP Error: '' @ m @ '', '' @ t) ''HTTP Error:'')
   \<and> (ep model prompt = PostRaises (Exc RequestException e)
        \<or> ep model prompt = PostReturns (Response c t m (Inl (Exc RequestException e)))
           \<and> (c < 400 \<or> 600 \<le> c) \<longrightarrow>
      generate_text ep prompt model = Inr (JStr (''Request Error: '' @ e))
      \<and> startswith (''Request Error: '' @ e) ''Request Error:'')
   \<and> (ep model prompt = PostRaises (Exc OtherException e)
        \<or> ep model prompt = PostReturns (Response c t m (Inl (Exc OtherException e)))
           \<and> (c < 400 \<or> 600 \<le> c) \<longrightarrow>
      generate_text ep prompt model = Inr (JStr (''Unexpected Error: '' @ e))
      \<and> startswith (''Unexpected Error: '' @ e) ''Unexpected Error:'')
   \<and> (ep model prompt = PostReturns (Response c t m (Inr data)) \<and> (c < 400 \<or> 600 \<le> c)
        \<and> (\<forall>kvs. data \<noteq> JObj kvs) \<longrightarrow>
      (\<exists>s. generate_text ep prompt model = Inr (JStr s) \<and> startswith s ''Unexpected Error:''))
   \<and> ((\<forall>e. ep model prompt \<noteq> PostRaises (Exc HTTPError e)) \<longrightarrow>
      (\<exists>v. generate_text ep prompt model = Inr v))"
proof (intro conjI impI)
  assume "ep model prompt = PostReturns (Response c t m (Inr (JObj kvs)))
        \<and> (c < 400 \<or> 600 \<le> c)"
  then show "generate_text ep prompt model =
      Inr (case map_of kvs ''response'' of None \<Rightarrow> JStr [] | Some v \<Rightarrow> v)"
    by (auto simp add: generate_text_def raise_for_status_def get_response_def
        split: option.splits)
next
  assume "ep model prompt = PostReturns (Response c t m j) \<and> 400 \<le> c \<and> c < 600"
  then show "generate_text ep prompt model = Inr (JStr (''HTTP Error: '' @ m @ '', '' @ t))"
    by (simp add: generate_text_def raise_for_status_def)
next
  show "startswith (''HTTP Error: '' @ m @ '', '' @ t) ''HTTP Error:''"
    by (simp add: startswith_def)
next
  assume "ep model prompt = PostRaises (Exc RequestException e)
        \<or> ep model prompt = PostReturns (Response c t m (Inl (Exc RequestException e)))
           \<and> (c < 400 \<or> 600 \<le> c)"
  then show "generate_text ep prompt model = Inr (JStr (''Request Error: '' @ e))"
    by (auto simp add: generate_text_def raise_for_status_def)
next
  show "startswith (''Request Error: '' @ e) ''Request Error:''"
    by (simp add: startswith_def)
next
  assume "ep model prompt = PostRaises (Exc OtherException e)
        \<or> ep model prompt = PostReturns (Response c t m (Inl (Exc OtherException e)))
           \<and> (c < 400 \<or> 600 \<le> c)"
  then show "generate_text ep prompt model = Inr (JStr (''Unexpected Error: '' @ e))"
    by (auto simp add: generate_text_def raise_for_status_def)
next
  show "startswith (''Unexpected Error: '' @ e) ''Unexpected Error:''"
    by (simp add: startswith_def)
next
  assume "ep model prompt = PostReturns (Response c t m (Inr data)) \<and> (c < 400 \<or> 600 \<le> c)
        \<and> (\<forall>kvs. data \<noteq> JObj kvs)"
  then show "\<exists>s. generate_text ep prompt model = Inr (JStr s) \<and> startswith s ''Unexpected Error:''"
    by (cases data)
      (auto simp add: generate_text_def raise_for_status_def get_response_def startswith_def)
next
  assume "\<forall>e. ep model prompt \<noteq> PostRaises (Exc HTTPError e)"
  then show "\<exists>v. generate_text ep prompt model = Inr v"
    by (rule generate_text_returns)
qed

theorem generate_text_classifies_witness:
  "generate_text (stub (replies ''hi there'')) ''Hello'' ''llama3'' = Inr (JStr ''hi there'')
   \<and> generate_text (stub server_error) ''Hello'' ''llama3'' =
       Inr (JStr ''HTTP Error: 500 Server Error, oops'')
   \<and> generate_text (stub (PostRaises (Exc RequestException ''Connection refused'')))
        ''Hello'' ''llama3'' = Inr (JStr ''Request Error: Connection refused'')
   \<and> generate_text (stub (PostRaises (Exc OtherException ''boom''))) ''Hello'' ''llama3'' =
       Inr (JStr ''Unexpected Error: boom'')
   \<and> (\<exists>s. generate_text (stub (PostReturns (Response 200 ''[1]'' [] (Inr (JList [JInt 1])))))
          ''Hello'' ''llama3'' = Inr (JStr s) \<and> startswith s ''Unexpected Error:'')
   \<and> (\<exists>v. generate_text (stub (PostRaises (Exc OtherException ''boom''))) ''Hello'' ''llama3''
          = Inr v)"
proof -
  have 1: "generate_text (stub (replies ''hi there'')) ''Hello'' ''llama3'' =
      Inr (JStr ''hi there'')"
    using generate_text_classifies [of "stub (replies ''hi there'')" "''llama3''" "''Hello''"
        200 _ "[]" "[(''response'', JStr ''hi there'')]", THEN conjunct1]
    by (simp add: stub_def replies_def)
  have 2: "generate_text (stub server_error) ''Hello'' ''llama3'' =
       Inr (JStr ''HTTP Error: 500 Server Error, oops'')"
    using generate_text_classifies [of "stub server_error" "''llama3''" "''Hello''"
        500 "''oops''" "''500 Server Error''" _ "Inl (Exc RequestException ''Expecting value'')",
        THEN conjunct2, THEN conjunct1]
    by (simp add: stub_def server_error_def)
  have 3: "generate_text (stub (PostRaises (Exc RequestException ''Connection refused'')))
        ''Hello'' ''llama3'' = Inr (JStr ''Request Error: Connection refused'')"
    using generate_text_classifies [of
        "stub (PostRaises (Exc RequestException ''Connection refused''))" "''llama3''" "''Hello''"
        _ _ _ _ _ "''Connection refused''", THEN conjunct2, THEN conjunct2, THEN conjunct1]
    by (simp add: stub_def)
  have 4: "generate_text (stub (PostRaises (Exc OtherException ''boom''))) ''Hello'' ''llama3'' =
       Inr (JStr ''Unexpected Error: boom'')"
    using generate_text_classifies [of
        "stub (PostRaises (Exc OtherException ''boom''))" "''llama3''" "''Hello''"
        _ _ _ _ _ "''boom''", THEN conjunct2, THEN conjunct2, THEN conjunct2, THEN conjunct1]
    by (simp add: stub_def)
  have 5: "\<exists>s. generate_text (stub (PostReturns (Response 200 ''[1]'' [] (Inr (JList [JInt 1])))))
          ''Hello'' ''llama3'' = Inr (JStr s) \<and> startswith s ''Unexpected Error:''"
    using generate_text_classifies [of
        "stub (PostReturns (Response 200 ''[1]'' [] (Inr (JList [JInt 1]))))" "''llama3''"
        "''Hello''" 200 "''[1]''" "[]" _ _ _ "JList [JInt 1]",
        THEN conjunct2, THEN conjunct2, THEN conjunct2, THEN conjunct2, THEN conjunct1]
    by (simp add: stub_def)
  have 6: "\<exists>v. generate_text (stub (PostRaises (Exc OtherException ''boom''))) ''Hello'' ''llama3''
          = Inr v"
    using generate_text_classifies [of
        "stub (PostRaises (Exc OtherException ''boom''))" "''llama3''" "''Hello''",
        THEN conjunct2, THEN conjunct2, THEN conjunct2, THEN conjunct2, THEN conjunct2]
    by (simp add: stub_def)
  from 1 2 3 4 5 6 show ?thesis
    by blast
qed

text \<open>
  C6 as stated does not hold. A reply with status 300, which is not a 2xx status, is
  returned as a success and does not begin with \<^verbatim>\<open>HTTP Error:\<close>. A reply whose body is not
  JSON, for which \<^verbatim>\<open>r.json()\<close> raises the library's JSONDecodeError, a RequestException,
  gives a string that begins with \<^verbatim>\<open>Request Error:\<close>, not with \<^verbatim>\<open>Unexpected Error:\<close>.
\<close>

theorem generate_text_misclassifies:
  "\<not> (200 \<le> (300::int) \<and> (300::int) < 300)
   \<and> generate_text
        (stub (PostReturns (Response 300 ''{\"response\": \"hi there\"}'' []
           (Inr (JObj [(''response'', JStr ''hi there'')])))))
        ''Hello'' ''llama3'' = Inr (JStr ''hi there'')
   \<and> \<not> startswith ''hi there'' ''HTTP Error:''
   \<and> generate_text
        (stub (PostReturns (Response 200 ''<html>not json</html>'' []
           (Inl (Exc RequestException ''Expecting value: line 1 column 1 (char 0)'')))))
        ''Hello'' ''llama3'' =
       Inr (JStr ''Request Error: Expecting value: line 1 column 1 (char 0)'')
   \<and> \<not> startswith ''Request Error: Expecting value: line 1 column 1 (char 0)''
         ''Unexpected Error:''"
  by (simp add: generate_text_def raise_for_status_def get_response_def stub_def startswith_def)

subsection \<open>Summarization and context\<close>

lemma slice_from_last: "1 \<le> k \<Longrightarrow> slice_from xs (- k) = drop (length xs - nat k) xs"
  by (auto simp add: slice_from_def slice_index_def max_def intro: arg_cong [where f = "\<lambda>n. drop n xs"])

lemma slice_to_old: "1 \<le> k \<Longrightarrow> slice_to xs (- k) = take (length xs - nat k) xs"
  by (auto simp add: slice_to_def slice_index_def max_def intro: arg_cong [where f = "\<lambda>n. take n xs"])

lemma length_slice_from: "1 \<le> k \<Longrightarrow> length (slice_from xs (- k)) = min (nat k) (length xs)"
  by (simp add: slice_from_last)

lemma render_is_message: "is_message m \<Longrightarrow> \<exists>l. render rt m = Inr l"
  by (auto simp add: is_message_def render_def split: json.splits option.splits)

lemma render_all_messages: "list_all is_message ms \<Longrightarrow> \<exists>ls. render_all rt ms = Inr ls"
proof (induction ms)
  case Nil
  then show ?case by simp
next
  case (Cons m ms)
  then obtain l ls where "render rt m = Inr l" "render_all rt ms = Inr ls"
    using render_is_message [of m rt] by auto
  then show ?case by simp
qed

lemma summarize_fired:
  assumes "1 \<le> max_history" "summary_threshold < int (length memory)"
    and "summarize rt ep model max_history summary_threshold memory = Inr memory'"
  shows "\<exists>ls summary.
      render_all rt (take (length memory - nat max_history) memory) = Inr ls
      \<and> generate_text ep (summary_prompt (join ''\<newline>'' ls)) model = Inr summary
      \<and> memory' = message ''system'' summary # drop (length memory - nat max_history) memory"
  using assms
  by (auto simp add: summarize_def slice_to_old slice_from_last split: sum.splits)

text \<open>
  C1. With \<open>max_history \<ge> 1\<close>, the summarization step leaves a transcript of length
  \<open>N \<le> summary_threshold\<close> as it is, whatever the endpoint. When \<open>N > summary_threshold\<close>
  and the step returns, the older messages were rendered, the generation client was called
  with the summary prompt, and the transcript is one system message carrying the client's
  answer followed by the last \<open>max_history\<close> messages: its length is
  \<open>1 + min max_history N\<close>. The step returns when the older messages are dicts with a
  str role and a content, and the call does not raise.
\<close>

theorem summarize_trigger:
  assumes "1 \<le> max_history"
  shows
    "(int (length memory) \<le> summary_threshold \<longrightarrow>
        summarize rt ep model max_history summary_threshold memory = Inr memory)
     \<and> (summary_threshold < int (length memory) \<longrightarrow>
        (\<forall>memory'. summarize rt ep model max_history summary_threshold memory = Inr memory' \<longrightarrow>
           (\<exists>ls summary.
              render_all rt (take (length memory - nat max_history) memory) = Inr ls
              \<and> generate_text ep (summary_prompt (join ''\<newline>'' ls)) model = Inr summary
              \<and> memory' = message ''system'' summary # drop (length memory - nat max_history) memory
              \<and> length memory' = 1 + min (nat max_history) (length memory))))
     \<and> (summary_threshold < int (length memory)
          \<and> list_all is_message (take (length memory - nat max_history) memory)
          \<and> (\<forall>p e. ep model p \<noteq> PostRaises (Exc HTTPError e)) \<longrightarrow>
        (\<exists>memory'. summarize rt ep model max_history summary_threshold memory = Inr memory'))"
proof (intro conjI impI allI)
  assume "int (length memory) \<le> summary_threshold"
  then show "summarize rt ep model max_history summary_threshold memory = Inr memory"
    by (simp add: summarize_def)
next
  fix memory'
  assume fires: "summary_threshold < int (length memory)"
    and ret: "summarize rt ep model max_history summary_threshold memory = Inr memory'"
  then obtain ls summary where
    ls: "render_all rt (take (length memory - nat max_history) memory) = Inr ls"
    and s: "generate_text ep (summary_prompt (join ''\<newline>'' ls)) model = Inr summary"
    and m: "memory' = message ''system'' summary # drop (length memory - nat max_history) memory"
    using summarize_fired [OF assms] by blast
  have "length memory' = 1 + min (nat max_history) (length memory)"
    unfolding m by simp
  with ls s m show "\<exists>ls summary.
      render_all rt (take (length memory - nat max_history) memory) = Inr ls
      \<and> generate_text ep (summary_prompt (join ''\<newline>'' ls)) model = Inr summary
      \<and> memory' = message ''system'' summary # drop (length memory - nat max_history) memory
      \<and> length memory' = 1 + min (nat max_history) (length memory)"
    by blast
next
  assume a: "summary_threshold < int (length memory)
          \<and> list_all is_message (take (length memory - nat max_history) memory)
          \<and> (\<forall>p e. ep model p \<noteq> PostRaises (Exc HTTPError e))"
  then obtain ls where
    ls: "render_all rt (take (length memory - nat max_history) memory) = Inr ls"
    using render_all_messages by blast
  from a obtain summary where
    "generate_text ep (summary_prompt (join ''\<newline>'' ls)) model = Inr summary"
    using generate_text_returns [of ep model] by blast
  with a ls show "\<exists>memory'. summarize rt ep model max_history summary_threshold memory = Inr memory'"
    by (simp add: summarize_def slice_to_old [OF assms])
qed

theorem summarize_trigger_witness:
  "(1::int) \<le> 2
   \<and> int (length example_transcript) \<le> 5
   \<and> summarize example_runtime (stub (replies ''A greeting.'')) ''llama3'' 2 5 example_transcript
       = Inr example_transcript
   \<and> 2 < int (length example_transcript)
   \<and> summarize example_runtime (stub (replies ''A greeting.'')) ''llama3'' 2 2 example_transcript
       = Inr [message ''system'' (JStr ''A greeting.''), message ''assistant'' (JStr ''hi there''),
              message ''user'' (JStr ''how are you'')]
   \<and> length [message ''system'' (JStr ''A greeting.''), message ''assistant'' (JStr ''hi there''),
              message ''user'' (JStr ''how are you'')] = 1 + min (nat 2) (length example_transcript)"
  using
    summarize_trigger [of 2 example_transcript 5 example_runtime "stub (replies ''A greeting.'')" "''llama3''"]
    summarize_trigger [of 2 example_transcript 2 example_runtime "stub (replies ''A greeting.'')" "''llama3''"]
  by (simp add: example_transcript_def example_runtime_def is_message_def message_def
        stub_def replies_def render_def ascii_capitalize_def format_value_def
        generate_text_def raise_for_status_def get_response_def summarize_def slice_to_def
        slice_from_def
        slice_index_def)

text \<open>
  C8. With \<open>summary_threshold \<ge> max_history \<ge> 1\<close>, on a turn whose summarization fires
  and returns, the collapsed transcript is the summary message followed by the last
  \<open>max_history\<close> messages, of length \<open>max_history + 1\<close>; its last \<open>max_history\<close> entries,
  which the context takes, are exactly those retained messages, so the summary message is
  not in the context of that turn (with an agent prompt, the context is the agent message
  followed by the retained messages).
\<close>

theorem summary_excluded_from_context:
  assumes "1 \<le> max_history" "max_history \<le> summary_threshold"
    and "summary_threshold < int (length memory)"
    and "summarize rt ep model max_history summary_threshold memory = Inr memory'"
  shows
    "(\<exists>summary. memory' =
        message ''system'' summary # drop (length memory - nat max_history) memory)
     \<and> length memory' = nat max_history + 1
     \<and> slice_from memory' (- max_history) = drop (length memory - nat max_history) memory
     \<and> context_messages max_history agent_prompt memory' =
         (if agent_prompt = [] then [] else [message ''system'' (JStr agent_prompt)])
           @ drop (length memory - nat max_history) memory"
proof -
  from assms obtain summary where
    m: "memory' = message ''system'' summary # drop (length memory - nat max_history) memory"
    using summarize_fired [of max_history summary_threshold memory rt ep model memory'] by blast
  from assms have "nat max_history < length memory" by linarith
  then have len: "length memory' = nat max_history + 1"
    unfolding m by simp
  have sl: "slice_from memory' (- max_history) = drop (length memory - nat max_history) memory"
    using assms(1) len by (simp add: slice_from_last m)
  have "context_messages max_history agent_prompt memory' =
         (if agent_prompt = [] then [] else [message ''system'' (JStr agent_prompt)])
           @ drop (length memory - nat max_history) memory"
    by (simp add: context_messages_def sl)
  with m len sl show ?thesis by blast
qed

theorem summary_excluded_from_context_witness:
  "(1::int) \<le> 2 \<and> (2::int) \<le> 2 \<and> 2 < int (length example_transcript)
   \<and> summarize example_runtime (stub (replies ''A greeting.'')) ''llama3'' 2 2 example_transcript
       = Inr [message ''system'' (JStr ''A greeting.''), message ''assistant'' (JStr ''hi there''),
              message ''user'' (JStr ''how are you'')]
   \<and> context_messages 2 []
        [message ''system'' (JStr ''A greeting.''), message ''assistant'' (JStr ''hi there''),
         message ''user'' (JStr ''how are you'')]
       = [message ''assistant'' (JStr ''hi there''), message ''user'' (JStr ''how are you'')]"
proof -
  have s: "summarize example_runtime (stub (replies ''A greeting.'')) ''llama3'' 2 2
        example_transcript
       = Inr [message ''system'' (JStr ''A greeting.''), message ''assistant'' (JStr ''hi there''),
              message ''user'' (JStr ''how are you'')]"
    by (simp add: example_transcript_def example_runtime_def message_def
        stub_def replies_def render_def ascii_capitalize_def format_value_def
        generate_text_def raise_for_status_def get_response_def summarize_def slice_to_def
        slice_from_def
        slice_index_def)
  have l: "2 < int (length example_transcript)"
    by (simp add: example_transcript_def)
  have d: "drop (length example_transcript - nat 2) example_transcript =
      [message ''assistant'' (JStr ''hi there''), message ''user'' (JStr ''how are you'')]"
    by (simp add: example_transcript_def)
  have p: "(1::int) \<le> 2" "(2::int) \<le> 2"
    by simp_all
  note t = summary_excluded_from_context [OF p l s, of "[]"]
  have "context_messages 2 []
        [message ''system'' (JStr ''A greeting.''), message ''assistant'' (JStr ''hi there''),
         message ''user'' (JStr ''how are you'')]
       = [message ''assistant'' (JStr ''hi there''), message ''user'' (JStr ''how are you'')]"
    using t [THEN conjunct2, THEN conjunct2, THEN conjunct2] unfolding d by simp
  with s l show ?thesis
    by simp
qed

lemma load_memory_world:
  "load_memory rt session w = (xs, w1) \<Longrightarrow>
     files w1 = files w \<and> endpoint w1 = endpoint w \<and> write_fault w1 = write_fault w"
  by (auto simp add: load_memory_def print_def
      split: file_state.splits decode_result.splits json.splits)

lemma assistant_response_world:
  assumes "assistant_response rt ui session model mh thr ap w = (res, w1)"
  shows "w1 = snd (load_memory rt session w)"
  using assms
  by (auto simp add: assistant_response_def split: prod.splits sum.splits)

lemma assistant_response_Inr:
  assumes "assistant_response rt ui session model mh thr ap w = (Inr (memory, reply), w1)"
  shows "summarize rt (endpoint w) model mh thr
           (fst (load_memory rt session w) @ [message ''user'' (JStr ui)]) = Inr memory
         \<and> (\<exists>context. context_prompt rt (context_messages mh ap memory) = Inr context
               \<and> generate_text (endpoint w) context model = Inr reply)"
proof -
  obtain loaded w' where l: "load_memory rt session w = (loaded, w')"
    by (cases "load_memory rt session w")
  then have e: "endpoint w' = endpoint w"
    using load_memory_world by blast
  from assms l e show ?thesis
    by (auto simp add: assistant_response_def split: sum.splits)
qed

lemmas example_defs =
  assistant_response_def load_memory_def example_world_def MEMORY_FILE_def
  summarize_def context_prompt_def context_messages_def slice_from_def slice_to_def
  slice_index_def message_def render_def example_runtime_def ascii_capitalize_def
  format_value_def generate_text_def raise_for_status_def stub_def replies_def
  get_response_def example_load_def example_documents_def example_record_def summary_prompt_def

lemma render_all_map: "render_all rt ms = Inr ls \<longleftrightarrow> map (render rt) ms = map Inr ls"
proof (induction ms arbitrary: ls)
  case Nil
  then show ?case by auto
next
  case (Cons m ms)
  show ?case
  proof (cases "render rt m")
    case (Inl e)
    then show ?thesis by (cases ls) auto
  next
    case l: (Inr l)
    show ?thesis
    proof (cases "render_all rt ms")
      case (Inl e)
      then have "map (render rt) ms \<noteq> map Inr ls'" for ls'
        using Cons.IH [of ls'] by simp
      with l Inl show ?thesis by (cases ls) auto
    next
      case (Inr ls')
      then have "map (render rt) ms = map Inr ls'"
        using Cons.IH by simp
      with l Inr show ?thesis by (cases ls) (auto simp add: inj_map_eq_map)
    qed
  qed
qed

lemma context_prompt_lines:
  "context_prompt rt ms = Inr p \<longleftrightarrow>
     (\<exists>ls. map (render rt) ms = map Inr ls \<and> p = join ''\<newline>'' ls @ ''\<newline>Assistant:'')"
  by (auto simp add: context_prompt_def render_all_map [symmetric] split: sum.splits)

text \<open>
  C3. With \<open>max_history \<ge> 1\<close>, as a configuration has it (the settings dialog offers 1 to
  100), the context is the last \<open>max_history\<close> messages of the transcript, preceded by one
  system message carrying \<open>agent_prompt\<close> when that is not empty and by nothing when it is:
  \<open>min max_history available + (1 if agent_prompt else 0)\<close> messages. The prompt made of a
  context is the lines of its messages, one for each message and in their order, joined by
  newlines and followed by the \<^verbatim>\<open>Assistant:\<close> marker on a line of its own; the line of a
  message is its capitalized role, a colon and a space, and its content. On a turn that
  reaches line 47, the transcript kept is what summarization left (a function of the loaded
  record and the user input, not of \<open>agent_prompt\<close>), and the prompt sent to generation is
  the prompt of its context: of the agent message, if any, and its last \<open>max_history\<close>
  messages. The record written is that transcript followed by the assistant message: the
  agent message is not appended to it.
\<close>

theorem context_assembly:
  assumes "1 \<le> max_history"
  shows
    "context_messages max_history agent_prompt memory =
        (if agent_prompt = [] then [] else [message ''system'' (JStr agent_prompt)])
          @ drop (length memory - nat max_history) memory
     \<and> length (context_messages max_history agent_prompt memory) =
         min (nat max_history) (length memory) + (if agent_prompt = [] then 0 else 1)
     \<and> (\<forall>ms p. context_prompt rt ms = Inr p \<longleftrightarrow>
          (\<exists>ls. map (render rt) ms = map Inr ls
             \<and> p = join ''\<newline>'' ls @ ''\<newline>Assistant:''))
     \<and> render rt (message role content) =
         Inr (capitalize rt role @ '': '' @ format_value rt content)
     \<and> format_value rt (JStr text) = text
     \<and> (\<forall>kept reply w1.
          assistant_response rt user_input session model max_history summary_threshold
            agent_prompt w = (Inr (kept, reply), w1) \<longrightarrow>
          summarize rt (endpoint w) model max_history summary_threshold
            (fst (load_memory rt session w) @ [message ''user'' (JStr user_input)]) = Inr kept
          \<and> (\<exists>ls.
                map (render rt)
                  ((if agent_prompt = [] then [] else [message ''system'' (JStr agent_prompt)])
                     @ drop (length kept - nat max_history) kept) = map Inr ls
                \<and> generate_text (endpoint w) (join ''\<newline>'' ls @ ''\<newline>Assistant:'') model
                    = Inr reply))
     \<and> (\<forall>kept reply w1.
          assistant_response rt user_input session model max_history summary_threshold
            agent_prompt w = (Inr (kept, reply), w1)
          \<and> is_failure reply = Inr False \<and> write_fault w = WriteOk \<longrightarrow>
          files (snd (chat_with_memory rt user_input session model max_history
                 summary_threshold agent_prompt w)) (MEMORY_FILE session) =
              Text (json_dump rt (JList (kept @ [message ''assistant'' reply]))))"
proof (intro conjI allI impI)
  show c: "context_messages max_history agent_prompt memory =
        (if agent_prompt = [] then [] else [message ''system'' (JStr agent_prompt)])
          @ drop (length memory - nat max_history) memory" for memory
    by (simp add: context_messages_def slice_from_last [OF assms])
  show "length (context_messages max_history agent_prompt memory) =
         min (nat max_history) (length memory) + (if agent_prompt = [] then 0 else 1)"
    by (simp add: context_messages_def length_slice_from [OF assms])
  show "context_prompt rt ms = Inr p \<longleftrightarrow>
          (\<exists>ls. map (render rt) ms = map Inr ls
             \<and> p = join ''\<newline>'' ls @ ''\<newline>Assistant:'')" for ms p
    by (rule context_prompt_lines)
  show "render rt (message role content) =
         Inr (capitalize rt role @ '': '' @ format_value rt content)"
    by (simp add: render_def message_def)
  show "format_value rt (JStr text) = text"
    by (simp add: format_value_def)
  {
    fix kept reply w1
    assume a: "assistant_response rt user_input session model max_history summary_threshold
            agent_prompt w = (Inr (kept, reply), w1)"
    from assistant_response_Inr [OF a]
    show "summarize rt (endpoint w) model max_history summary_threshold
            (fst (load_memory rt session w) @ [message ''user'' (JStr user_input)]) = Inr kept"
      by blast
    from assistant_response_Inr [OF a] obtain sent where
      p: "context_prompt rt (context_messages max_history agent_prompt kept) = Inr sent"
      and g: "generate_text (endpoint w) sent model = Inr reply"
      by blast
    from p obtain ls where
      "map (render rt) (context_messages max_history agent_prompt kept) = map Inr ls"
      "sent = join ''\<newline>'' ls @ ''\<newline>Assistant:''"
      using context_prompt_lines by blast
    with g show "\<exists>ls.
                map (render rt)
                  ((if agent_prompt = [] then [] else [message ''system'' (JStr agent_prompt)])
                     @ drop (length kept - nat max_history) kept) = map Inr ls
                \<and> generate_text (endpoint w) (join ''\<newline>'' ls @ ''\<newline>Assistant:'') model
                    = Inr reply"
      unfolding c [of kept] by blast
  }
next
  fix kept reply w1
  assume a: "assistant_response rt user_input session model max_history summary_threshold
            agent_prompt w = (Inr (kept, reply), w1)
          \<and> is_failure reply = Inr False \<and> write_fault w = WriteOk"
  then have "w1 = snd (load_memory rt session w)"
    using assistant_response_world by blast
  then have "write_fault w1 = write_fault w"
    using load_memory_world [of rt session w "fst (load_memory rt session w)" w1] by simp
  with a show "files (snd (chat_with_memory rt user_input session model max_history
                 summary_threshold agent_prompt w)) (MEMORY_FILE session) =
              Text (json_dump rt (JList (kept @ [message ''assistant'' reply])))"
    by (simp add: chat_with_memory_def save_memory_def)
qed

theorem context_assembly_witness:
  "(1::int) \<le> 5
   \<and> context_messages 5 ''Be brief.'' example_transcript =
       message ''system'' (JStr ''Be brief.'') # example_transcript
   \<and> length (context_messages 5 ''Be brief.'' example_transcript) =
       min (nat 5) (length example_transcript) + 1
   \<and> context_prompt example_runtime
        (context_messages 5 ''Be brief.'' [message ''user'' (JStr ''hello'')]) =
       Inr ''System: Be brief.\<newline>User: hello\<newline>Assistant:''
   \<and> assistant_response example_runtime ''hello'' ''t1'' ''llama3'' 5 20 ''Be brief.''
         (example_world [] (stub (replies ''hi there'')) WriteOk) =
       (Inr ([message ''user'' (JStr ''hello'')], JStr ''hi there''),
        example_world [] (stub (replies ''hi there'')) WriteOk)
   \<and> is_failure (JStr ''hi there'') = Inr False
   \<and> write_fault (example_world [] (stub (replies ''hi there'')) WriteOk) = WriteOk
   \<and> generate_text (endpoint (example_world [] (stub (replies ''hi there'')) WriteOk))
        ''System: Be brief.\<newline>User: hello\<newline>Assistant:'' ''llama3'' = Inr (JStr ''hi there'')
   \<and> files (snd (chat_with_memory example_runtime ''hello'' ''t1'' ''llama3'' 5 20 ''Be brief.''
         (example_world [] (stub (replies ''hi there'')) WriteOk))) (MEMORY_FILE ''t1'') =
       Text (json_dump example_runtime
         (JList [message ''user'' (JStr ''hello''), message ''assistant'' (JStr ''hi there'')]))"
proof -
  let ?w = "example_world [] (stub (replies ''hi there'')) WriteOk"
  have m: "(1::int) \<le> 5"
    by simp
  note t = context_assembly [OF m, of "''Be brief.''" _ example_runtime _ _ _ "''hello''"
      "''t1''" "''llama3''" 20 ?w]
  have r: "assistant_response example_runtime ''hello'' ''t1'' ''llama3'' 5 20 ''Be brief.'' ?w =
       (Inr ([message ''user'' (JStr ''hello'')], JStr ''hi there''), ?w)"
    by (simp add: example_defs)
  have f: "is_failure (JStr ''hi there'') = Inr False"
    by (simp add: is_failure_def startswith_any_def startswith_def error_prefixes_def)
  have w: "write_fault ?w = WriteOk"
    by (simp add: example_world_def)
  have c: "context_messages 5 ''Be brief.'' example_transcript =
       message ''system'' (JStr ''Be brief.'') # example_transcript"
    using t [of example_transcript, THEN conjunct1] by (simp add: example_transcript_def)
  have n: "length (context_messages 5 ''Be brief.'' example_transcript) =
       min (nat 5) (length example_transcript) + 1"
    using t [of example_transcript, THEN conjunct2, THEN conjunct1] by simp
  have l: "map (render example_runtime)
        (context_messages 5 ''Be brief.'' [message ''user'' (JStr ''hello'')]) =
      map Inr [''System: Be brief.'', ''User: hello'']"
    by (simp add: example_defs)
  have p: "context_prompt example_runtime
        (context_messages 5 ''Be brief.'' [message ''user'' (JStr ''hello'')]) =
       Inr ''System: Be brief.\<newline>User: hello\<newline>Assistant:''"
    using t [THEN conjunct2, THEN conjunct2, THEN conjunct1, THEN spec, THEN spec, THEN iffD2,
        OF exI, of _ "[''System: Be brief.'', ''User: hello'']"] l
    by simp
  have g: "generate_text (endpoint ?w)
        ''System: Be brief.\<newline>User: hello\<newline>Assistant:'' ''llama3'' = Inr (JStr ''hi there'')"
    by (simp add: example_defs)
  have s: "files (snd (chat_with_memory example_runtime ''hello'' ''t1'' ''llama3'' 5 20
        ''Be brief.'' ?w)) (MEMORY_FILE ''t1'') =
       Text (json_dump example_runtime
         (JList [message ''user'' (JStr ''hello''), message ''assistant'' (JStr ''hi there'')]))"
    using t [THEN conjunct2, THEN conjunct2, THEN conjunct2, THEN conjunct2, THEN conjunct2,
        THEN conjunct2] r f w
    by simp
  from m c n p r f w g s show ?thesis
    by blast
qed

subsection \<open>The turn\<close>

lemma assistant_response_files:
  assumes "assistant_response rt ui session model mh thr ap w = (res, w1)"
  shows "files w1 = files w \<and> endpoint w1 = endpoint w \<and> write_fault w1 = write_fault w"
  using assistant_response_world [OF assms]
    load_memory_world [of rt session w "fst (load_memory rt session w)" w1]
  by simp

text \<open>
  C2. When line 47 returns a reply that is the empty string or begins with
  \<^verbatim>\<open>HTTP Error:\<close>, \<^verbatim>\<open>Request Error:\<close> or \<^verbatim>\<open>Unexpected Error:\<close>, the turn returns that
  reply unchanged and writes nothing: every file is as it was before the turn (the world
  returned is the one after loading, which differs from the first only in what loading
  printed), so no assistant message reaches the record.
\<close>

theorem failed_reply_not_persisted:
  assumes "assistant_response rt user_input session model max_history summary_threshold
             agent_prompt w = (Inr (memory, JStr s), w1)"
    and "s = [] \<or> startswith s ''HTTP Error:'' \<or> startswith s ''Request Error:''
           \<or> startswith s ''Unexpected Error:''"
  shows "chat_with_memory rt user_input session model max_history summary_threshold
             agent_prompt w = (Inr (JStr s), w1)
         \<and> files w1 = files w"
proof -
  from assms(2) have "is_failure (JStr s) = Inr True"
    by (auto simp add: is_failure_def startswith_any_def error_prefixes_def)
  with assms(1) show ?thesis
    using assistant_response_files [OF assms(1)]
    by (simp add: chat_with_memory_def)
qed

theorem failed_reply_not_persisted_witness:
  "assistant_response example_runtime ''hello'' ''t1'' ''llama3'' 5 20 []
      (example_world [(''memory_t1.json'', ''[]'')] (stub server_error) WriteOk) =
     (Inr ([message ''user'' (JStr ''hello'')], JStr ''HTTP Error: 500 Server Error, oops''),
      example_world [(''memory_t1.json'', ''[]'')] (stub server_error) WriteOk)
   \<and> startswith ''HTTP Error: 500 Server Error, oops'' ''HTTP Error:''
   \<and> chat_with_memory example_runtime ''hello'' ''t1'' ''llama3'' 5 20 []
      (example_world [(''memory_t1.json'', ''[]'')] (stub server_error) WriteOk) =
     (Inr (JStr ''HTTP Error: 500 Server Error, oops''),
      example_world [(''memory_t1.json'', ''[]'')] (stub server_error) WriteOk)"
proof -
  have r: "assistant_response example_runtime ''hello'' ''t1'' ''llama3'' 5 20 []
      (example_world [(''memory_t1.json'', ''[]'')] (stub server_error) WriteOk) =
     (Inr ([message ''user'' (JStr ''hello'')], JStr ''HTTP Error: 500 Server Error, oops''),
      example_world [(''memory_t1.json'', ''[]'')] (stub server_error) WriteOk)"
    by (simp add: example_defs server_error_def)
  have p: "startswith ''HTTP Error: 500 Server Error, oops'' ''HTTP Error:''"
    by (simp add: startswith_def)
  then have "''HTTP Error: 500 Server Error, oops'' = []
      \<or> startswith ''HTTP Error: 500 Server Error, oops'' ''HTTP Error:''
      \<or> startswith ''HTTP Error: 500 Server Error, oops'' ''Request Error:''
      \<or> startswith ''HTTP Error: 500 Server Error, oops'' ''Unexpected Error:''"
    by blast
  from failed_reply_not_persisted [OF r this] r p show ?thesis
    by blast
qed

text \<open>
  C7. When the reply is a success (not empty, no error prefix) and the write fails, at
  \<^verbatim>\<open>open\<close> or later, the turn still returns the reply, and the failure is printed as
  \<^verbatim>\<open>Error saving memory: ...\<close>, not raised.
\<close>

theorem save_failure_logged:
  assumes "assistant_response rt user_input session model max_history summary_threshold
             agent_prompt w = (Inr (memory, reply), w1)"
    and "is_failure reply = Inr False"
    and "write_fault w = OpenFails e \<or> write_fault w = DumpFails written e"
  shows "fst (chat_with_memory rt user_input session model max_history summary_threshold
             agent_prompt w) = Inr reply
         \<and> stdout (snd (chat_with_memory rt user_input session model max_history
             summary_threshold agent_prompt w)) = stdout w1 @ [''Error saving memory: '' @ e]"
proof -
  from assms(3) have "write_fault w1 = OpenFails e \<or> write_fault w1 = DumpFails written e"
    using assistant_response_files [OF assms(1)] by simp
  with assms(1,2) show ?thesis
    by (auto simp add: chat_with_memory_def save_memory_def print_def)
qed

theorem save_failure_logged_witness:
  "assistant_response example_runtime ''hello'' ''t1'' ''llama3'' 5 20 []
      (example_world [] (stub (replies ''hi there''))
         (DumpFails [] ''No space left on device'')) =
     (Inr ([message ''user'' (JStr ''hello'')], JStr ''hi there''),
      example_world [] (stub (replies ''hi there'')) (DumpFails [] ''No space left on device''))
   \<and> is_failure (JStr ''hi there'') = Inr False
   \<and> write_fault (example_world [] (stub (replies ''hi there''))
         (DumpFails [] ''No space left on device'')) = DumpFails [] ''No space left on device''
   \<and> fst (chat_with_memory example_runtime ''hello'' ''t1'' ''llama3'' 5 20 []
      (example_world [] (stub (replies ''hi there''))
         (DumpFails [] ''No space left on device''))) = Inr (JStr ''hi there'')
   \<and> stdout (snd (chat_with_memory example_runtime ''hello'' ''t1'' ''llama3'' 5 20 []
      (example_world [] (stub (replies ''hi there''))
         (DumpFails [] ''No space left on device'')))) =
       [''Error saving memory: No space left on device'']"
proof -
  have r: "assistant_response example_runtime ''hello'' ''t1'' ''llama3'' 5 20 []
      (example_world [] (stub (replies ''hi there''))
         (DumpFails [] ''No space left on device'')) =
     (Inr ([message ''user'' (JStr ''hello'')], JStr ''hi there''),
      example_world [] (stub (replies ''hi there'')) (DumpFails [] ''No space left on device''))"
    by (simp add: example_defs)
  have f: "is_failure (JStr ''hi there'') = Inr False"
    by (simp add: is_failure_def startswith_any_def startswith_def error_prefixes_def)
  have w: "write_fault (example_world [] (stub (replies ''hi there''))
         (DumpFails [] ''No space left on device'')) = DumpFails [] ''No space left on device''"
    by (simp add: example_world_def)
  then have "write_fault (example_world [] (stub (replies ''hi there''))
         (DumpFails [] ''No space left on device'')) = OpenFails ''No space left on device''
      \<or> write_fault (example_world [] (stub (replies ''hi there''))
         (DumpFails [] ''No space left on device'')) = DumpFails [] ''No space left on device''"
    by blast
  from save_failure_logged [OF r f this] r f w show ?thesis
    by (simp add: example_world_def)
qed

text \<open>
  C9. Whatever the generation client returns for the summary prompt (an error string and
  the empty string included) becomes the content of the system message that replaces the
  older messages; no check is made on it. When the final reply then is a success and the
  write goes through, the record written holds that system message first, followed by the
  retained messages and the assistant message.
\<close>

theorem summary_failure_persisted:
  assumes "load_memory rt session w = (loaded, w1)"
    and "summary_threshold < int (length (loaded @ [message ''user'' (JStr user_input)]))"
    and "render_all rt (slice_to (loaded @ [message ''user'' (JStr user_input)])
           (- max_history)) = Inr ls"
    and "generate_text (endpoint w) (summary_prompt (join ''\<newline>'' ls)) model = Inr summary"
    and "context_prompt rt (context_messages max_history agent_prompt
           (message ''system'' summary
              # slice_from (loaded @ [message ''user'' (JStr user_input)]) (- max_history)))
         = Inr context"
    and "generate_text (endpoint w) context model = Inr reply"
    and "is_failure reply = Inr False"
    and "write_fault w = WriteOk"
  shows "chat_with_memory rt user_input session model max_history summary_threshold
           agent_prompt w =
         (Inr reply,
          w1\<lparr>files := (files w1)(MEMORY_FILE session := Text (json_dump rt (JList
             (message ''system'' summary
                # slice_from (loaded @ [message ''user'' (JStr user_input)]) (- max_history)
                @ [message ''assistant'' reply]))))\<rparr>)"
proof -
  have e: "endpoint w1 = endpoint w" and f: "write_fault w1 = write_fault w"
    using load_memory_world [OF assms(1)] by simp_all
  have "summarize rt (endpoint w1) model max_history summary_threshold
          (loaded @ [message ''user'' (JStr user_input)]) =
        Inr (message ''system'' summary
              # slice_from (loaded @ [message ''user'' (JStr user_input)]) (- max_history))"
    using assms(2,3,4) by (simp add: summarize_def e)
  then have "assistant_response rt user_input session model max_history summary_threshold
           agent_prompt w =
         (Inr (message ''system'' summary
              # slice_from (loaded @ [message ''user'' (JStr user_input)]) (- max_history),
               reply), w1)"
    using assms(1,5,6) by (simp add: assistant_response_def e)
  then show ?thesis
    using assms(7,8) by (simp add: chat_with_memory_def save_memory_def f)
qed

theorem summary_failure_persisted_witness:
  "load_memory example_runtime ''t1''
      (example_world [(''memory_t1.json'', example_record)] summary_refused WriteOk) =
     ([message ''user'' (JStr ''hello''), message ''assistant'' (JStr ''hi there'')],
      example_world [(''memory_t1.json'', example_record)] summary_refused WriteOk)
   \<and> generate_text summary_refused (summary_prompt ''User: hello'') ''llama3'' =
       Inr (JStr ''Request Error: Connection refused'')
   \<and> is_failure (JStr ''Request Error: Connection refused'') = Inr True
   \<and> chat_with_memory example_runtime ''how are you'' ''t1'' ''llama3'' 2 2 []
      (example_world [(''memory_t1.json'', example_record)] summary_refused WriteOk) =
     (Inr (JStr ''fine''),
      (example_world [(''memory_t1.json'', example_record)] summary_refused WriteOk)
        \<lparr>files := (files (example_world [(''memory_t1.json'', example_record)]
              summary_refused WriteOk))
           (MEMORY_FILE ''t1'' := Text (json_dump example_runtime (JList
             [message ''system'' (JStr ''Request Error: Connection refused''),
              message ''assistant'' (JStr ''hi there''), message ''user'' (JStr ''how are you''),
              message ''assistant'' (JStr ''fine'')])))\<rparr>)"
proof -
  let ?w = "example_world [(''memory_t1.json'', example_record)] summary_refused WriteOk"
  let ?loaded = "[message ''user'' (JStr ''hello''), message ''assistant'' (JStr ''hi there'')]"
  have l: "load_memory example_runtime ''t1'' ?w = (?loaded, ?w)"
    by (simp add: example_defs)
  have n: "2 < int (length (?loaded @ [message ''user'' (JStr ''how are you'')]))"
    by simp
  have o: "render_all example_runtime
      (slice_to (?loaded @ [message ''user'' (JStr ''how are you'')]) (- 2)) = Inr [''User: hello'']"
    by (simp add: example_defs)
  have j: "join ''\<newline>'' [''User: hello''] = ''User: hello''"
    by simp
  have g: "generate_text (endpoint ?w) (summary_prompt (join ''\<newline>'' [''User: hello'']))
      ''llama3'' = Inr (JStr ''Request Error: Connection refused'')"
    by (simp add: example_defs summary_refused_def startswith_def)
  have c: "context_prompt example_runtime (context_messages 2 []
      (message ''system'' (JStr ''Request Error: Connection refused'')
        # slice_from (?loaded @ [message ''user'' (JStr ''how are you'')]) (- 2))) =
      Inr ''Assistant: hi there\<newline>User: how are you\<newline>Assistant:''"
    by (simp add: example_defs)
  have r: "generate_text (endpoint ?w) ''Assistant: hi there\<newline>User: how are you\<newline>Assistant:''
      ''llama3'' = Inr (JStr ''fine'')"
    by (simp add: example_defs summary_refused_def startswith_def)
  have f: "is_failure (JStr ''fine'') = Inr False"
    by (simp add: is_failure_def startswith_any_def startswith_def error_prefixes_def)
  have w: "write_fault ?w = WriteOk"
    by (simp add: example_world_def)
  have e: "is_failure (JStr ''Request Error: Connection refused'') = Inr True"
    by (simp add: is_failure_def startswith_any_def startswith_def error_prefixes_def)
  have s: "slice_from (?loaded @ [message ''user'' (JStr ''how are you'')]) (- 2) =
      [message ''assistant'' (JStr ''hi there''), message ''user'' (JStr ''how are you'')]"
    by (simp add: slice_from_def slice_index_def)
  have g': "generate_text summary_refused (summary_prompt ''User: hello'') ''llama3'' =
       Inr (JStr ''Request Error: Connection refused'')"
    using g by (simp add: example_world_def)
  from summary_failure_persisted [OF l n o g c r f w] l g' e show ?thesis
    unfolding s by simp
qed

subsection \<open>The persistence store\<close>

lemma load_saved:
  assumes "write_fault w = WriteOk"
    and "json_load rt (json_dump rt (JList T)) = Decoded (JList T)"
  shows "load_memory rt session (save_memory rt session T w) = (T, save_memory rt session T w)"
  using assms by (simp add: load_memory_def save_memory_def)

text \<open>
  C5. After a write that meets no fault, loading the session returns exactly the transcript
  that was written, in order, whenever the JSON codec reads back what it wrote for that
  transcript (\<^verbatim>\<open>json.load\<close> of \<^verbatim>\<open>json.dump\<close>, a property of the library; the strings
  are arbitrary byte sequences, so non-ASCII content is included). The same holds for the
  write at the end of a successful turn.
\<close>

theorem load_after_save:
  assumes "write_fault w = WriteOk"
    and "json_load rt (json_dump rt (JList T)) = Decoded (JList T)"
  shows
    "load_memory rt session (save_memory rt session T w) = (T, save_memory rt session T w)
     \<and> (\<forall>kept reply w1.
          assistant_response rt user_input session model max_history summary_threshold
            agent_prompt w = (Inr (kept, reply), w1)
          \<and> is_failure reply = Inr False
          \<and> T = kept @ [message ''assistant'' reply] \<longrightarrow>
          fst (load_memory rt session
                (snd (chat_with_memory rt user_input session model max_history
                   summary_threshold agent_prompt w))) = T)"
proof (intro conjI allI impI)
  show "load_memory rt session (save_memory rt session T w) = (T, save_memory rt session T w)"
    using assms by (rule load_saved)
next
  fix kept reply w1
  assume a: "assistant_response rt user_input session model max_history summary_threshold
            agent_prompt w = (Inr (kept, reply), w1)
          \<and> is_failure reply = Inr False
          \<and> T = kept @ [message ''assistant'' reply]"
  then have "write_fault w1 = WriteOk"
    using assistant_response_files assms(1) by metis
  then have "load_memory rt session (save_memory rt session T w1) =
      (T, save_memory rt session T w1)"
    using assms(2) by (rule load_saved)
  with a show "fst (load_memory rt session
                (snd (chat_with_memory rt user_input session model max_history
                   summary_threshold agent_prompt w))) = T"
    by (simp add: chat_with_memory_def)
qed

theorem load_after_save_witness:
  "write_fault (example_world [] (stub (replies ''hi there'')) WriteOk) = WriteOk
   \<and> json_load example_runtime (json_dump example_runtime
        (JList [message ''user'' (JStr ''hello''), message ''assistant'' (JStr ''hi there'')])) =
      Decoded (JList [message ''user'' (JStr ''hello''), message ''assistant'' (JStr ''hi there'')])
   \<and> files (save_memory example_runtime ''t1''
        [message ''user'' (JStr ''hello''), message ''assistant'' (JStr ''hi there'')]
        (example_world [] (stub (replies ''hi there'')) WriteOk)) (MEMORY_FILE ''t1'') =
      Text example_record
   \<and> fst (load_memory example_runtime ''t1'' (save_memory example_runtime ''t1''
        [message ''user'' (JStr ''hello''), message ''assistant'' (JStr ''hi there'')]
        (example_world [] (stub (replies ''hi there'')) WriteOk))) =
      [message ''user'' (JStr ''hello''), message ''assistant'' (JStr ''hi there'')]
   \<and> fst (load_memory example_runtime ''t1''
        (snd (chat_with_memory example_runtime ''hello'' ''t1'' ''llama3'' 5 20 []
           (example_world [] (stub (replies ''hi there'')) WriteOk)))) =
      [message ''user'' (JStr ''hello''), message ''assistant'' (JStr ''hi there'')]"
proof -
  let ?w = "example_world [] (stub (replies ''hi there'')) WriteOk"
  let ?T = "[message ''user'' (JStr ''hello''), message ''assistant'' (JStr ''hi there'')]"
  have w: "write_fault ?w = WriteOk"
    by (simp add: example_world_def)
  have d: "json_dump example_runtime (JList ?T) = example_record"
    by (simp add: example_runtime_def example_dump_def example_documents_def message_def)
  have c: "json_load example_runtime (json_dump example_runtime (JList ?T)) = Decoded (JList ?T)"
    unfolding d
    by (simp add: example_runtime_def example_load_def example_documents_def example_record_def)
  have r: "assistant_response example_runtime ''hello'' ''t1'' ''llama3'' 5 20 [] ?w =
     (Inr ([message ''user'' (JStr ''hello'')], JStr ''hi there''), ?w)"
    by (simp add: example_defs)
  have f: "is_failure (JStr ''hi there'') = Inr False"
    by (simp add: is_failure_def startswith_any_def startswith_def error_prefixes_def)
  have s: "files (save_memory example_runtime ''t1'' ?T ?w) (MEMORY_FILE ''t1'') =
      Text example_record"
    using w d by (simp add: save_memory_def)
  note t = load_after_save [OF w c, of "''t1''" "''hello''" "''llama3''" 5 20 "[]"]
  from t [THEN conjunct1] t [THEN conjunct2] r f w c s show ?thesis
    by simp
qed

text \<open>
  C4, as the code has it. A write that fails at \<^verbatim>\<open>open\<close> leaves every file as it was. A
  write that fails after \<^verbatim>\<open>open\<close> leaves the session's record holding only the text
  written before the failure: \<^verbatim>\<open>open(..., "w")\<close> has truncated the previous content.
  Either way the failure is printed and the records of other sessions are untouched. The
  same holds of the files after a turn whose reply is a success and whose write fails.
\<close>

theorem failed_save_effect:
  "(write_fault w = OpenFails e \<longrightarrow> files (save_memory rt session T w) = files w)
   \<and> (write_fault w = DumpFails written e \<longrightarrow>
        files (save_memory rt session T w) = (files w)(MEMORY_FILE session := Text written))
   \<and> (write_fault w = OpenFails e \<or> write_fault w = DumpFails written e \<longrightarrow>
        stdout (save_memory rt session T w) = stdout w @ [''Error saving memory: '' @ e]
        \<and> (\<forall>p. p \<noteq> MEMORY_FILE session \<longrightarrow> files (save_memory rt session T w) p = files w p))
   \<and> (\<forall>kept reply w1.
        assistant_response rt user_input session model max_history summary_threshold
          agent_prompt w = (Inr (kept, reply), w1)
        \<and> is_failure reply = Inr False \<longrightarrow>
        (write_fault w = OpenFails e \<longrightarrow>
           files (snd (chat_with_memory rt user_input session model max_history
             summary_threshold agent_prompt w)) = files w)
        \<and> (write_fault w = DumpFails written e \<longrightarrow>
           files (snd (chat_with_memory rt user_input session model max_history
             summary_threshold agent_prompt w)) = (files w)(MEMORY_FILE session := Text written)))"
proof (intro conjI allI impI)
  show "files (save_memory rt session T w) = files w" if "write_fault w = OpenFails e"
    using that by (simp add: save_memory_def print_def)
  show "files (save_memory rt session T w) = (files w)(MEMORY_FILE session := Text written)"
    if "write_fault w = DumpFails written e"
    using that by (simp add: save_memory_def print_def)
  show "stdout (save_memory rt session T w) = stdout w @ [''Error saving memory: '' @ e]"
    if "write_fault w = OpenFails e \<or> write_fault w = DumpFails written e"
    using that by (auto simp add: save_memory_def print_def)
  show "files (save_memory rt session T w) p = files w p"
    if "write_fault w = OpenFails e \<or> write_fault w = DumpFails written e"
      and "p \<noteq> MEMORY_FILE session" for p
    using that by (auto simp add: save_memory_def print_def)
next
  fix kept reply w1
  assume a: "assistant_response rt user_input session model max_history summary_threshold
          agent_prompt w = (Inr (kept, reply), w1)
        \<and> is_failure reply = Inr False"
  then have w1: "files w1 = files w" "write_fault w1 = write_fault w"
    using assistant_response_files by blast+
  have c: "snd (chat_with_memory rt user_input session model max_history summary_threshold
      agent_prompt w) = save_memory rt session (kept @ [message ''assistant'' reply]) w1"
    using a by (simp add: chat_with_memory_def)
  show "files (snd (chat_with_memory rt user_input session model max_history
             summary_threshold agent_prompt w)) = files w"
    if "write_fault w = OpenFails e"
    using that w1 by (simp add: c save_memory_def print_def)
  show "files (snd (chat_with_memory rt user_input session model max_history
             summary_threshold agent_prompt w)) = (files w)(MEMORY_FILE session := Text written)"
    if "write_fault w = DumpFails written e"
    using that w1 by (simp add: c save_memory_def print_def)
qed

theorem failed_save_effect_witness:
  "write_fault (example_world [(''memory_t1.json'', example_record)] (stub (replies ''fine''))
        (OpenFails ''Permission denied'')) = OpenFails ''Permission denied''
   \<and> files (save_memory example_runtime ''t1'' example_transcript
        (example_world [(''memory_t1.json'', example_record)] (stub (replies ''fine''))
           (OpenFails ''Permission denied''))) (MEMORY_FILE ''t1'') = Text example_record
   \<and> write_fault (example_world [(''memory_t1.json'', example_record)] (stub (replies ''fine''))
        (DumpFails ''['' ''No space left on device'')) = DumpFails ''['' ''No space left on device''
   \<and> files (save_memory example_runtime ''t1'' example_transcript
        (example_world [(''memory_t1.json'', example_record)] (stub (replies ''fine''))
           (DumpFails ''['' ''No space left on device''))) (MEMORY_FILE ''t1'') = Text ''[''
   \<and> stdout (save_memory example_runtime ''t1'' example_transcript
        (example_world [(''memory_t1.json'', example_record)] (stub (replies ''fine''))
           (DumpFails ''['' ''No space left on device''))) =
       [''Error saving memory: No space left on device'']
   \<and> assistant_response example_runtime ''how are you'' ''t1'' ''llama3'' 5 20 []
        (example_world [(''memory_t1.json'', example_record)] (stub (replies ''fine''))
           (OpenFails ''Permission denied'')) =
       (Inr (example_transcript, JStr ''fine''),
        example_world [(''memory_t1.json'', example_record)] (stub (replies ''fine''))
           (OpenFails ''Permission denied''))
   \<and> is_failure (JStr ''fine'') = Inr False
   \<and> files (snd (chat_with_memory example_runtime ''how are you'' ''t1'' ''llama3'' 5 20 []
        (example_world [(''memory_t1.json'', example_record)] (stub (replies ''fine''))
           (OpenFails ''Permission denied'')))) (MEMORY_FILE ''t1'') = Text example_record"
proof -
  let ?o = "example_world [(''memory_t1.json'', example_record)] (stub (replies ''fine''))
           (OpenFails ''Permission denied'')"
  let ?d = "example_world [(''memory_t1.json'', example_record)] (stub (replies ''fine''))
           (DumpFails ''['' ''No space left on device'')"
  have r: "assistant_response example_runtime ''how are you'' ''t1'' ''llama3'' 5 20 [] ?o =
       (Inr (example_transcript, JStr ''fine''), ?o)"
    by (simp add: example_defs example_transcript_def)
  have f: "is_failure (JStr ''fine'') = Inr False"
    by (simp add: is_failure_def startswith_any_def startswith_def error_prefixes_def)
  have wo: "write_fault ?o = OpenFails ''Permission denied''"
    and wd: "write_fault ?d = DumpFails ''['' ''No space left on device''"
    by (simp_all add: example_world_def)
  have fo: "files ?o (MEMORY_FILE ''t1'') = Text example_record"
    by (simp add: example_world_def MEMORY_FILE_def)
  note o = failed_save_effect [of ?o "''Permission denied''" example_runtime "''t1''"
      example_transcript _ "''how are you''" "''llama3''" 5 20 "[]"]
  note d = failed_save_effect [of ?d "''No space left on device''" example_runtime "''t1''"
      example_transcript "''[''"]
  have 1: "files (save_memory example_runtime ''t1'' example_transcript ?o) (MEMORY_FILE ''t1'')
      = Text example_record"
    using o [THEN conjunct1] wo fo by simp
  have 2: "files (save_memory example_runtime ''t1'' example_transcript ?d) (MEMORY_FILE ''t1'')
      = Text ''[''"
    using d [THEN conjunct2, THEN conjunct1] wd by simp
  have 3: "stdout (save_memory example_runtime ''t1'' example_transcript ?d) =
       [''Error saving memory: No space left on device'']"
    using d [THEN conjunct2, THEN conjunct2, THEN conjunct1] wd by (simp add: example_world_def)
  have 4: "files (snd (chat_with_memory example_runtime ''how are you'' ''t1'' ''llama3'' 5 20 []
        ?o)) (MEMORY_FILE ''t1'') = Text example_record"
    using o [THEN conjunct2, THEN conjunct2, THEN conjunct2] r f wo fo by simp
  from wo wd 1 2 3 r f 4 show ?thesis
    by simp
qed

text \<open>
  C4 as stated does not hold: a turn whose write fails after \<^verbatim>\<open>open\<close>, before any text
  reached the file, replaces a record of two messages by an empty file.
\<close>

theorem failed_save_loses_record:
  "files (example_world [(''memory_t1.json'', example_record)] (stub (replies ''fine''))
        (DumpFails [] ''No space left on device'')) (MEMORY_FILE ''t1'') = Text example_record
   \<and> chat_with_memory example_runtime ''how are you'' ''t1'' ''llama3'' 5 20 []
        (example_world [(''memory_t1.json'', example_record)] (stub (replies ''fine''))
           (DumpFails [] ''No space left on device'')) =
      (Inr (JStr ''fine''),
       \<lparr>files = (files (example_world [(''memory_t1.json'', example_record)]
                    (stub (replies ''fine'')) (DumpFails [] ''No space left on device'')))
                 (MEMORY_FILE ''t1'' := Text []),
        endpoint = stub (replies ''fine''),
        write_fault = DumpFails [] ''No space left on device'',
        stdout = [''Error saving memory: No space left on device'']\<rparr>)
   \<and> files (snd (chat_with_memory example_runtime ''how are you'' ''t1'' ''llama3'' 5 20 []
        (example_world [(''memory_t1.json'', example_record)] (stub (replies ''fine''))
           (DumpFails [] ''No space left on device'')))) (MEMORY_FILE ''t1'')
      \<noteq> files (example_world [(''memory_t1.json'', example_record)] (stub (replies ''fine''))
        (DumpFails [] ''No space left on device'')) (MEMORY_FILE ''t1'')"
  by (simp add: chat_with_memory_def example_defs save_memory_def print_def is_failure_def
        startswith_any_def startswith_def error_prefixes_def)

subsection \<open>Records that are not transcripts\<close>

lemma render_not_dict: "\<not> is_dict x \<Longrightarrow> render rt x = Inl TypeError"
  by (cases x) (simp_all add: is_dict_def render_def)

lemma render_all_stops:
  "list_all is_message pre \<Longrightarrow> \<not> is_dict x \<Longrightarrow> render_all rt (pre @ x # rest) = Inl TypeError"
proof (induction pre)
  case Nil
  then show ?case by (simp add: render_not_dict)
next
  case (Cons m pre)
  then obtain l where "render rt m = Inr l"
    using render_is_message [of m rt] by auto
  with Cons show ?case by simp
qed

lemma is_message_message: "is_message (message role (JStr s))"
  by (simp add: is_message_def message_def)

lemma is_message_system: "is_message (message ''system'' v)"
  by (simp add: is_message_def message_def)

lemma drop_non_dicts:
  assumes "list_all (\<lambda>x. \<not> is_dict x) xs" "k < length xs"
  shows "\<exists>x rest. drop k (xs @ [u]) = x # rest \<and> \<not> is_dict x"
proof -
  have "drop k (xs @ [u]) = xs ! k # drop (Suc k) xs @ [u]"
    using assms(2) by (simp add: Cons_nth_drop_Suc)
  moreover have "\<not> is_dict (xs ! k)"
    using assms by (simp add: list_all_length)
  ultimately show ?thesis by blast
qed

lemma render_all_drop:
  assumes "list_all (\<lambda>x. \<not> is_dict x) xs" "k < length xs" "list_all is_message pre"
  shows "render_all rt (pre @ drop k (xs @ [u])) = Inl TypeError"
  using drop_non_dicts [OF assms(1,2), of u] render_all_stops [OF assms(3)] by metis

lemma generate_text_Inl: "generate_text ep prompt model = Inl e \<Longrightarrow> e = UnboundLocalError"
proof -
  have h: "handle_exc x t = Inl e \<Longrightarrow> e = UnboundLocalError" for x t
  proof -
    assume a: "handle_exc x t = Inl e"
    obtain c m where "x = Exc c m" by (cases x)
    with a show ?thesis by (cases c; cases t) simp_all
  qed
  assume "generate_text ep prompt model = Inl e"
  then show ?thesis
    using h
    by (auto simp add: generate_text_def raise_for_status_def
        split: post_result.splits option.splits sum.splits)
qed

lemma context_prompt_non_dicts:
  assumes "list_all (\<lambda>x. \<not> is_dict x) xs" "xs \<noteq> []" "2 \<le> max_history"
    and "list_all is_message pre" "length pre \<le> 1"
  shows "context_prompt rt (context_messages max_history agent_prompt (pre @ xs @ [u]))
     = Inl TypeError"
proof -
  let ?k = "slice_index (length (pre @ xs @ [u])) (- max_history)"
  have k: "?k \<le> length pre + length xs - 1"
    using assms(2,3) by (auto simp add: slice_index_def max_def)
  have "\<exists>pre'. list_all is_message pre' \<and>
      (\<exists>j < length xs. drop ?k (pre @ xs @ [u]) = pre' @ drop j (xs @ [u]))"
  proof (cases "?k < length pre")
    case True
    with assms(5) have "?k = 0" "length pre = 1" by linarith+
    with assms(2,4) show ?thesis
      by (intro exI [of _ pre]) (auto intro: exI [of _ 0])
  next
    case False
    then have "drop ?k (pre @ xs @ [u]) = [] @ drop (?k - length pre) (xs @ [u])"
      by simp
    moreover have "?k - length pre < length xs"
      using k False assms(2) by (cases xs) auto
    ultimately show ?thesis
      by (intro exI [of _ "[]"]) auto
  qed
  then obtain pre' j where p: "list_all is_message pre'" "j < length xs"
    "drop ?k (pre @ xs @ [u]) = pre' @ drop j (xs @ [u])"
    by blast
  have s: "slice_from (pre @ xs @ [u]) (- max_history) = pre' @ drop j (xs @ [u])"
    using p(3) by (simp add: slice_from_def)
  have "render_all rt (context_messages max_history agent_prompt (pre @ xs @ [u]))
      = Inl TypeError"
  proof (cases "agent_prompt = []")
    case True
    then show ?thesis
      using render_all_drop [OF assms(1) p(2) p(1)] by (simp add: context_messages_def s)
  next
    case False
    have "list_all is_message (message ''system'' (JStr agent_prompt) # pre')"
      using p(1) by (simp add: is_message_message)
    from render_all_drop [OF assms(1) p(2) this] False show ?thesis
      by (simp add: context_messages_def s)
  qed
  then show ?thesis
    by (simp add: context_prompt_def)
qed

lemma summarize_non_dicts:
  assumes "list_all (\<lambda>x. \<not> is_dict x) xs" "xs \<noteq> []" "2 \<le> max_history"
  shows "summarize rt ep model max_history summary_threshold (xs @ [u]) = Inl TypeError
    \<or> summarize rt ep model max_history summary_threshold (xs @ [u]) = Inl UnboundLocalError
    \<or> (\<exists>pre. list_all is_message pre \<and> length pre \<le> 1
         \<and> summarize rt ep model max_history summary_threshold (xs @ [u]) = Inr (pre @ xs @ [u]))"
proof (cases "int (length (xs @ [u])) > summary_threshold")
  case False
  then have "summarize rt ep model max_history summary_threshold (xs @ [u]) = Inr ([] @ xs @ [u])"
    by (simp add: summarize_def)
  then show ?thesis
    by (intro disjI2 exI [of _ "[]"]) simp
next
  case True
  let ?k = "slice_index (length (xs @ [u])) (- max_history)"
  have k: "?k < length xs"
    using assms(2,3) by (cases xs) (auto simp add: slice_index_def max_def)
  show ?thesis
  proof (cases "?k = 0")
    case z: True
    then have old: "slice_to (xs @ [u]) (- max_history) = []"
      and recent: "slice_from (xs @ [u]) (- max_history) = xs @ [u]"
      by (simp_all add: slice_to_def slice_from_def)
    show ?thesis
    proof (cases "generate_text ep (summary_prompt (join ''\<newline>'' [])) model")
      case (Inl e)
      then have "e = UnboundLocalError" by (rule generate_text_Inl)
      with Inl True old show ?thesis
        by (simp add: summarize_def)
    next
      case (Inr summary)
      with True old recent have
        "summarize rt ep model max_history summary_threshold (xs @ [u])
          = Inr ([message ''system'' summary] @ xs @ [u])"
        by (simp add: summarize_def)
      moreover have "list_all is_message [message ''system'' summary]"
        by (simp add: is_message_system)
      ultimately show ?thesis
        by (intro disjI2 exI [of _ "[message ''system'' summary]"]) simp
    qed
  next
    case False
    then obtain k' where k': "?k = Suc k'" by (cases ?k) auto
    from assms(2) obtain x xs' where xs: "xs = x # xs'" by (cases xs) auto
    with assms(1) have "\<not> is_dict x" by simp
    moreover have "slice_to (xs @ [u]) (- max_history) = x # take k' (xs' @ [u])"
      using k' xs by (simp add: slice_to_def)
    ultimately have "render_all rt (slice_to (xs @ [u]) (- max_history)) = Inl TypeError"
      using render_all_stops [of "[]" x rt] by simp
    with True show ?thesis
      by (simp add: summarize_def)
  qed
qed

text \<open>
  C10. \<^verbatim>\<open>load_memory\<close> returns any decoded list as it is. When the record is a non-empty
  list none of whose elements is a dict and \<open>max_history \<ge> 2\<close>, the turn that follows
  raises: TypeError, from subscripting such an element with \<^verbatim>\<open>'role'\<close> (always so when
  summarization does not fire), or else the UnboundLocalError of a summary call. Nothing is
  written.
\<close>

theorem load_accepts_non_messages:
  assumes "files w (MEMORY_FILE session) = Text s"
    and "json_load rt s = Decoded (JList xs)"
    and "xs \<noteq> []" and "list_all (\<lambda>x. \<not> is_dict x) xs"
    and "2 \<le> max_history"
  shows
    "load_memory rt session w = (xs, w)
     \<and> (chat_with_memory rt user_input session model max_history summary_threshold
           agent_prompt w = (Inl TypeError, w)
         \<or> chat_with_memory rt user_input session model max_history summary_threshold
           agent_prompt w = (Inl UnboundLocalError, w))
     \<and> (int (length xs) < summary_threshold \<longrightarrow>
         chat_with_memory rt user_input session model max_history summary_threshold
           agent_prompt w = (Inl TypeError, w))"
proof -
  let ?u = "message ''user'' (JStr user_input)"
  have l: "load_memory rt session w = (xs, w)"
    using assms(1,2) by (simp add: load_memory_def)
  have c: "context_prompt rt (context_messages max_history agent_prompt (pre @ xs @ [?u]))
      = Inl TypeError" if "list_all is_message pre" "length pre \<le> 1" for pre
    using context_prompt_non_dicts [OF assms(4,3,5) that] .
  have a: "assistant_response rt user_input session model max_history summary_threshold
           agent_prompt w = (Inl TypeError, w)
         \<or> assistant_response rt user_input session model max_history summary_threshold
           agent_prompt w = (Inl UnboundLocalError, w)"
    using summarize_non_dicts [OF assms(4,3,5), of rt "endpoint w" model summary_threshold ?u] c
    by (auto simp add: assistant_response_def l)
  have b: "assistant_response rt user_input session model max_history summary_threshold
           agent_prompt w = (Inl TypeError, w)" if "int (length xs) < summary_threshold"
  proof -
    from that have "summarize rt (endpoint w) model max_history summary_threshold (xs @ [?u])
        = Inr (xs @ [?u])"
      by (simp add: summarize_def)
    then show ?thesis
      using c [of "[]"] by (simp add: assistant_response_def l)
  qed
  from l a b show ?thesis
    by (auto simp add: chat_with_memory_def)
qed

theorem load_accepts_non_messages_witness:
  "files (example_world [(''memory_t1.json'', ''[\<newline>  1\<newline>]'')] (stub (replies ''fine'')) WriteOk)
      (MEMORY_FILE ''t1'') = Text ''[\<newline>  1\<newline>]''
   \<and> json_load example_runtime ''[\<newline>  1\<newline>]'' = Decoded (JList [JInt 1])
   \<and> [JInt 1] \<noteq> [] \<and> list_all (\<lambda>x. \<not> is_dict x) [JInt 1] \<and> (2::int) \<le> 5
   \<and> load_memory example_runtime ''t1''
        (example_world [(''memory_t1.json'', ''[\<newline>  1\<newline>]'')] (stub (replies ''fine'')) WriteOk) =
       ([JInt 1],
        example_world [(''memory_t1.json'', ''[\<newline>  1\<newline>]'')] (stub (replies ''fine'')) WriteOk)
   \<and> chat_with_memory example_runtime ''hello'' ''t1'' ''llama3'' 5 20 []
        (example_world [(''memory_t1.json'', ''[\<newline>  1\<newline>]'')] (stub (replies ''fine'')) WriteOk) =
       (Inl TypeError,
        example_world [(''memory_t1.json'', ''[\<newline>  1\<newline>]'')] (stub (replies ''fine'')) WriteOk)"
proof -
  let ?w = "example_world [(''memory_t1.json'', ''[\<newline>  1\<newline>]'')] (stub (replies ''fine'')) WriteOk"
  have f: "files ?w (MEMORY_FILE ''t1'') = Text ''[\<newline>  1\<newline>]''"
    by (simp add: example_world_def MEMORY_FILE_def)
  have d: "json_load example_runtime ''[\<newline>  1\<newline>]'' = Decoded (JList [JInt 1])"
    by (simp add: example_runtime_def example_load_def example_documents_def)
  have n: "[JInt 1] \<noteq> []" and a: "list_all (\<lambda>x. \<not> is_dict x) [JInt 1]"
    and m: "(2::int) \<le> 5"
    by (simp_all add: is_dict_def)
  note t = load_accepts_non_messages [OF f d n a m, of "''hello''" "''llama3''" 20 "[]"]
  from t [THEN conjunct1] t [THEN conjunct2, THEN conjunct2] f d n a m show ?thesis
    by simp
qed

end
